theory Spec2Isabelle
  imports Main "HOL-Library.Sublist"
begin

section \<open>Greaseweazle tools/util.py: port scoring, port location, mode switching\<close>

subsection \<open>Candidate ports\<close>

text \<open>
  One entry of \<^verbatim>\<open>serial.tools.list_ports.comports()\<close>. Every attribute but the device
  path is \<^verbatim>\<open>None\<close> when the platform does not report it (a port that is not a USB device has
  no vendor or product id).
\<close>

record port =
  device :: string
  manufacturer :: "string option"
  product :: "string option"
  vid :: "int option"
  pid :: "int option"
  serial_number :: "string option"
  location :: "string option"

subsection \<open>Errors\<close>

text \<open>
  The exceptions that leave the functions of util.py: \<^verbatim>\<open>serial.SerialException\<close> with its
  message, \<^verbatim>\<open>struct.error\<close>, \<^verbatim>\<open>TypeError\<close> (from a \<^verbatim>\<open>%04X\<close> format applied to
  \<^verbatim>\<open>None\<close>), \<^verbatim>\<open>error.Fatal\<close> with its description, and \<^verbatim>\<open>SystemExit\<close> with the status
  given to \<^verbatim>\<open>sys.exit\<close>.
\<close>

datatype error =
    SerialException string
  | StructError
  | TypeError
  | Fatal string
  | SystemExit int

subsection \<open>valid_ser_id\<close>

text \<open>
  A string is a list of 8-bit characters. \<^verbatim>\<open>str.upper\<close> is modelled on them: the letters
  a to z are changed, every other character is left as it is. Python changes other
  characters of that range too, none of them into G or W, so on every 8-bit string the test
  \<^verbatim>\<open>startswith("GW")\<close> below gives what the code gives. Python's strings also hold code
  points beyond that range, which the model does not represent; among them U+1E98
  upper-cases to W followed by U+030A, so the code takes a serial identifier that starts
  with G and U+1E98 as valid.
\<close>

definition upper_char :: "char \<Rightarrow> char" where
  "upper_char c =
     (let n = (of_char c :: nat) in if 97 \<le> n \<and> n \<le> 122 then char_of (n - 32) else c)"

definition upper :: "string \<Rightarrow> string" where
  "upper s = map upper_char s"

text \<open>Truth value of \<^verbatim>\<open>ser_id and ser_id.upper().startswith("GW")\<close>: \<^verbatim>\<open>None\<close> and the
  empty string are false.\<close>

definition valid_ser_id :: "string option \<Rightarrow> bool" where
  "valid_ser_id ser_id =
     (case ser_id of
        None \<Rightarrow> False
      | Some s \<Rightarrow> s \<noteq> [] \<and> prefix ''GW'' (upper s))"

subsection \<open>score_port\<close>

text \<open>Truth value of an optional string: \<^verbatim>\<open>None\<close> and \<^verbatim>\<open>''\<close> are false.\<close>

definition truthy :: "string option \<Rightarrow> bool" where
  "truthy s = (case s of None \<Rightarrow> False | Some t \<Rightarrow> t \<noteq> [])"

text \<open>Lines 218 to 229: the running score after the identity rules (an if/elif chain).\<close>

definition base_score :: "port \<Rightarrow> int" where
  "base_score x =
     (if manufacturer x = Some ''Keir Fraser'' \<and> product x = Some ''Greaseweazle'' then 20
      else if vid x = Some 0x1209 \<and> pid x = Some 0x4d69 then 20
      else if vid x = Some 0x1209 \<and> pid x = Some 0x0001 then 10
      else if vid x = Some 0x2E8A \<or> vid x = Some 0x239A then 5
      else 0)"

text \<open>Lines 230 to 238: the serial rule, applied to the running score.\<close>

definition serial_rule :: "port \<Rightarrow> port option \<Rightarrow> int \<Rightarrow> int" where
  "serial_rule x old_port score =
     (if score > 0 \<and> valid_ser_id (serial_number x) then
        (case old_port of
           None \<Rightarrow> 20
         | Some old \<Rightarrow>
             if \<not> valid_ser_id (serial_number old) then 20
             else if serial_number x = serial_number old then 30
             else 0)
      else score)"

text \<open>Lines 239 to 245: the location filter, applied to the running score.\<close>

definition location_rule :: "port \<Rightarrow> port option \<Rightarrow> int \<Rightarrow> int" where
  "location_rule x old_port score =
     (case old_port of
        None \<Rightarrow> score
      | Some old \<Rightarrow>
          if truthy (location old) then
            (if \<not> truthy (location x) \<or> location x \<noteq> location old then 0 else score)
          else score)"

definition score_port :: "port \<Rightarrow> port option \<Rightarrow> int" where
  "score_port x old_port = location_rule x old_port (serial_rule x old_port (base_score x))"

subsection \<open>find_port and port_info\<close>

text \<open>
  The enumeration \<^verbatim>\<open>comports()\<close> is a parameter: the list of ports in the order the
  platform reports them. The loop carries \<^verbatim>\<open>best_score, best_port\<close>. The argument of
  \<^verbatim>\<open>logging.debug\<close> is built with \<^verbatim>\<open>%\<close> before the call, at any logging level, and
  \<^verbatim>\<open>"%04X" % None\<close> raises \<^verbatim>\<open>TypeError\<close>: that is the second branch of the loop body.
\<close>

fun find_port_loop :: "port list \<Rightarrow> port option \<Rightarrow> int \<times> port option \<Rightarrow> error + (int \<times> port option)" where
  "find_port_loop [] old_port best = Inr best"
| "find_port_loop (x # xs) old_port best =
     (let score = score_port x old_port in
      if vid x = None \<or> pid x = None then Inl TypeError
      else if score > fst best then find_port_loop xs old_port (score, Some x)
      else find_port_loop xs old_port best)"

definition find_port :: "port list \<Rightarrow> port option \<Rightarrow> error + string" where
  "find_port comports old_port =
     (case find_port_loop comports old_port (0, None) of
        Inl e \<Rightarrow> Inl e
      | Inr (best_score, Some best_port) \<Rightarrow> Inr (device best_port)
      | Inr (best_score, None) \<Rightarrow> Inl (SerialException ''Cannot find the Greaseweazle device''))"

fun port_info :: "port list \<Rightarrow> string \<Rightarrow> port option" where
  "port_info [] devname = None"
| "port_info (x # xs) devname = (if device x = devname then Some x else port_info xs devname)"

subsection \<open>Sessions\<close>

text \<open>
  Modelled from the spec: the class \<^verbatim>\<open>USB.Unit\<close> is not in util.py. Section 6 gives what
  its constructor queries from the device: mode, hardware model and submodel, firmware
  major and minor version, updateNeeded and updateJumpered.
\<close>

record unit_info =
  update_mode :: bool
  hw_model :: nat
  hw_submodel :: nat
  major :: nat
  minor :: nat
  update_needed :: bool
  update_jumpered :: bool

text \<open>
  A session as util.py uses it: the queried attributes, the path of the open channel
  (\<^verbatim>\<open>usb.ser\<close>), and the three attributes util.py itself assigns.
\<close>

record usb = unit_info +
  ser :: string
  usb_port_info :: "port option"
  jumperless_update :: bool
  can_mode_switch :: bool

text \<open>What the functions do besides returning, in order.\<close>

datatype event =
    SwitchFwMode nat
  | SerClose string
  | Sleep
  | Print string

subsection \<open>The host\<close>

text \<open>
  What one attempt to open a device sees: the enumeration read by \<^verbatim>\<open>find_port\<close>, whether
  \<^verbatim>\<open>serial.Serial(devicename)\<close> opens (\<^verbatim>\<open>Some\<close> the message of its SerialException
  otherwise), what the device answers to the query of \<^verbatim>\<open>USB.Unit\<close>, and the enumeration read
  by \<^verbatim>\<open>port_info\<close>.
\<close>

record open_env =
  comports_find :: "port list"
  serial_open :: "string \<Rightarrow> string option"
  unit_query :: "string \<Rightarrow> unit_info"
  comports_info :: "port list"

text \<open>
  What a mode switch sees: the exception \<^verbatim>\<open>usb.switch_fw_mode\<close> raises, if any, and the
  host at each turn of the retry loop.
\<close>

record reopen_env =
  switch_fw_mode :: "nat \<Rightarrow> error option"
  attempts :: "nat \<Rightarrow> open_env"

record host_env =
  platform_system :: string
  platform_release :: string
  initial :: open_env
  reopen :: reopen_env

subsection \<open>usb_reopen\<close>

text \<open>The body of the \<^verbatim>\<open>else\<close> clause, lines 284 to 288.\<close>

definition reopened :: "open_env \<Rightarrow> string \<Rightarrow> usb \<Rightarrow> usb" where
  "reopened a devicename usb =
     (let q = unit_query a devicename in
      \<lparr> update_mode = update_mode q, hw_model = hw_model q, hw_submodel = hw_submodel q,
        major = major q, minor = minor q, update_needed = update_needed q,
        update_jumpered = update_jumpered q,
        ser = devicename,
        usb_port_info = port_info (comports_info a) devicename,
        jumperless_update = jumperless_update usb,
        can_mode_switch = can_mode_switch usb \<rparr>)"

text \<open>\<^verbatim>\<open>except serial.SerialException\<close>.\<close>

fun is_serial_exception :: "error \<Rightarrow> bool" where
  "is_serial_exception (SerialException m) = True"
| "is_serial_exception e = False"

text \<open>\<^verbatim>\<open>except (serial.SerialException, struct.error)\<close>.\<close>

fun is_serial_or_struct :: "error \<Rightarrow> bool" where
  "is_serial_or_struct (SerialException m) = True"
| "is_serial_or_struct StructError = True"
| "is_serial_or_struct e = False"

text \<open>
  \<^verbatim>\<open>for i in range(10)\<close>, from turn \<open>i\<close> with \<open>n\<close> turns left, and the \<^verbatim>\<open>raise\<close> after it.
\<close>

fun reopen_loop :: "reopen_env \<Rightarrow> usb \<Rightarrow> nat \<Rightarrow> nat \<Rightarrow> event list \<times> (error + usb)" where
  "reopen_loop env usb i 0 =
     ([], Inl (SerialException ''Could not reopen port after mode switch''))"
| "reopen_loop env usb i (Suc n) =
     (let a = attempts env i;
          continue = (case reopen_loop env usb (Suc i) n of (tr, r) \<Rightarrow> (Sleep # tr, r))
      in case find_port (comports_find a) (usb_port_info usb) of
           Inl e \<Rightarrow> if is_serial_exception e then continue else ([Sleep], Inl e)
         | Inr devicename \<Rightarrow>
             (case serial_open a devicename of
                Some m \<Rightarrow> continue
              | None \<Rightarrow> ([Sleep], Inr (reopened a devicename usb))))"

definition usb_reopen :: "reopen_env \<Rightarrow> usb \<Rightarrow> bool \<Rightarrow> event list \<times> (error + usb)" where
  "usb_reopen env usb is_update =
     (let mode = (if is_update then 0 else 1);
          retry = (case reopen_loop env usb 0 10 of
                     (tr, r) \<Rightarrow> (SwitchFwMode mode # SerClose (ser usb) # tr, r))
      in case switch_fw_mode env mode of
           None \<Rightarrow> retry
         | Some e \<Rightarrow> if is_serial_or_struct e then retry else ([SwitchFwMode mode], Inl e))"

subsection \<open>usb_mode_check\<close>

text \<open>\<^verbatim>\<open>"%u" % n\<close>.\<close>

fun show_nat :: "nat \<Rightarrow> string" where
  "show_nat n =
     (if n < 10 then [char_of (48 + n)]
      else show_nat (n div 10) @ [char_of (48 + n mod 10)])"

declare show_nat.simps [simp del]

definition pins :: "'a unit_info_scheme \<Rightarrow> string" where
  "pins usb = (if hw_model usb \<noteq> 1 then ''RXI-TXO'' else ''DCLK-GND'')"

definition print_update_instructions :: "usb \<Rightarrow> event list" where
  "print_update_instructions usb =
     [Print ''To perform an Update:''] @
     (if \<not> jumperless_update usb then
        [Print '' - Disconnect from USB'',
         Print ('' - Install the Update Jumper at pins '' @ pins usb),
         Print '' - Reconnect to USB'']
      else []) @
     [Print ('' - Run '' @ [CHR 0x22] @ ''gw update'' @ [CHR 0x22] @
             '' to download and install latest firmware'')]"

text \<open>Lines 309 to 317: the report that the device is in update mode, then \<^verbatim>\<open>sys.exit(1)\<close>.\<close>

definition in_update_mode_report :: "usb \<Rightarrow> event list" where
  "in_update_mode_report usb =
     [Print ''ERROR: Greaseweazle is in Firmware Update Mode'',
      Print ('' - The only available action is '' @ [CHR 0x22] @ ''gw update'' @ [CHR 0x22]),
      (if update_jumpered usb then
         Print ('' - For normal operation disconnect from USB and remove '' @
                ''the Update Jumper at pins '' @ pins usb)
       else Print '' - Main firmware is erased: You *must* perform an update!'')]"

definition not_changed_msg :: string where
  "not_changed_msg =
     ''Greaseweazle did not change to Firmware Update Mode as requested.'' @ [CHR 0x0A] @
     ''If the problem persists, install the Update Jumper at pins RXI-TXO.''"

text \<open>
  Modelled from the spec: \<^verbatim>\<open>error.check(pred, desc)\<close> is not in util.py. Section 4.5 says of
  its one use that the operation fails fatally when the mode after the switch is not the
  update mode; the failure carries the description.
\<close>

definition error_check :: "bool \<Rightarrow> string \<Rightarrow> error option" where
  "error_check pred desc = (if pred then None else Some (Fatal desc))"

definition usb_mode_check :: "reopen_env \<Rightarrow> usb \<Rightarrow> bool \<Rightarrow> event list \<times> (error + usb)" where
  "usb_mode_check env usb is_update =
     (if update_mode usb \<and> \<not> is_update then
        (if can_mode_switch usb then
           (case usb_reopen env usb is_update of
              (tr, Inl e) \<Rightarrow> (tr, Inl e)
            | (tr, Inr usb') \<Rightarrow>
                if \<not> update_mode usb' then (tr, Inr usb')
                else (tr @ in_update_mode_report usb', Inl (SystemExit 1)))
         else (in_update_mode_report usb, Inl (SystemExit 1)))
      else if is_update \<and> \<not> update_mode usb then
        (if can_mode_switch usb then
           (case usb_reopen env usb is_update of
              (tr, Inl e) \<Rightarrow> (tr, Inl e)
            | (tr, Inr usb') \<Rightarrow>
                (case error_check (update_mode usb') not_changed_msg of
                   Some e \<Rightarrow> (tr, Inl e)
                 | None \<Rightarrow> (tr, Inr usb')))
         else (Print ''ERROR: Greaseweazle is not in Firmware Update Mode'' #
               print_update_instructions usb, Inl (SystemExit 1)))
      else if \<not> update_mode usb \<and> update_needed usb then
        (Print (''ERROR: Greaseweazle firmware v'' @ show_nat (major usb) @ ''.'' @
                show_nat (minor usb) @ '' is unsupported'') #
         print_update_instructions usb, Inl (SystemExit 1))
      else ([], Inr usb))"

subsection \<open>usb_open\<close>

definition is_win7 :: "host_env \<Rightarrow> bool" where
  "is_win7 h = (platform_system h = ''Windows'' \<and> platform_release h = ''7'')"

definition usb_open :: "host_env \<Rightarrow> string option \<Rightarrow> bool \<Rightarrow> bool \<Rightarrow> event list \<times> (error + usb)" where
  "usb_open h devicename is_update mode_check =
     (case (case devicename of
              None \<Rightarrow> find_port (comports_find (initial h)) None
            | Some d \<Rightarrow> Inr d) of
        Inl e \<Rightarrow> ([], Inl e)
      | Inr d \<Rightarrow>
          (case serial_open (initial h) d of
             Some m \<Rightarrow> ([], Inl (SerialException m))
           | None \<Rightarrow>
               (let q = unit_query (initial h) d;
                    ju = ((hw_model q, hw_submodel q) \<noteq> (1, 0) \<and> \<not> is_win7 h);
                    cms = (ju \<and> \<not> (update_mode q \<and> update_jumpered q));
                    usb = \<lparr> update_mode = update_mode q, hw_model = hw_model q,
                            hw_submodel = hw_submodel q, major = major q, minor = minor q,
                            update_needed = update_needed q,
                            update_jumpered = update_jumpered q,
                            ser = d,
                            usb_port_info = port_info (comports_info (initial h)) d,
                            jumperless_update = ju,
                            can_mode_switch = cms \<rparr>
                in if mode_check then usb_mode_check (reopen h) usb is_update
                   else ([], Inr usb))))"

subsection \<open>Outcomes of one turn of the retry loop\<close>

text \<open>
  Turn \<open>i\<close> of the loop of usb_reopen fails, and is swallowed, when find_port raises its
  SerialException or when \<^verbatim>\<open>serial.Serial\<close> raises one on the device found; it opens device
  \<open>d\<close> when find_port returns \<open>d\<close> and \<^verbatim>\<open>serial.Serial(d)\<close> succeeds. In both, find_port is
  given the port of the session that was closed.
\<close>

abbreviation attempt_fails :: "reopen_env \<Rightarrow> usb \<Rightarrow> nat \<Rightarrow> bool" where
  "attempt_fails env usb i \<equiv>
     (\<exists>m. find_port (comports_find (attempts env i)) (usb_port_info usb) = Inl (SerialException m))
     \<or> (\<exists>d m. find_port (comports_find (attempts env i)) (usb_port_info usb) = Inr d
             \<and> serial_open (attempts env i) d = Some m)"

abbreviation attempt_opens :: "reopen_env \<Rightarrow> usb \<Rightarrow> nat \<Rightarrow> string \<Rightarrow> bool" where
  "attempt_opens env usb i d \<equiv>
     find_port (comports_find (attempts env i)) (usb_port_info usb) = Inr d
     \<and> serial_open (attempts env i) d = None"

abbreviation timeout_error :: error where
  "timeout_error \<equiv> SerialException ''Could not reopen port after mode switch''"

subsection \<open>Example ports\<close>

text \<open>
  A Greaseweazle with its own id pair and serial identifier, the same unit seen on another
  bus location, on other device paths, and without a location; a second unit; a board of
  an allow-listed vendor; a unit with the shared test id pair; a serial port that is not
  a USB device; a USB serial adapter of an unrelated vendor.
\<close>

definition gw_a :: port where
  "gw_a = \<lparr> device = ''/dev/ttyACM0'', manufacturer = Some ''Keir Fraser'',
            product = Some ''Greaseweazle'', vid = Some 0x1209, pid = Some 0x4d69,
            serial_number = Some ''GW0001'', location = Some ''1-1'' \<rparr>"

definition gw_a_moved :: port where
  "gw_a_moved = gw_a \<lparr> device := ''/dev/ttyACM1'', location := Some ''1-2'' \<rparr>"

definition gw_a_re :: port where
  "gw_a_re = gw_a \<lparr> device := ''/dev/ttyACM1'' \<rparr>"

definition gw_a_back :: port where
  "gw_a_back = gw_a \<lparr> device := ''/dev/ttyACM2'' \<rparr>"

definition gw_a_noloc :: port where
  "gw_a_noloc = gw_a \<lparr> location := None \<rparr>"

definition gw_b :: port where
  "gw_b = gw_a \<lparr> device := ''/dev/ttyACM2'', serial_number := Some ''gw0002'' \<rparr>"

definition pico :: port where
  "pico = \<lparr> device = ''/dev/ttyACM3'', manufacturer = Some ''Raspberry Pi'',
            product = Some ''Pico'', vid = Some 0x2E8A, pid = Some 0x000A,
            serial_number = Some ''E6605481DB'', location = Some ''1-1'' \<rparr>"

definition legacy :: port where
  "legacy = \<lparr> device = ''COM3'', manufacturer = None, product = None,
              vid = Some 0x1209, pid = Some 0x0001, serial_number = None, location = None \<rparr>"

definition ttyS0 :: port where
  "ttyS0 = \<lparr> device = ''/dev/ttyS0'', manufacturer = None, product = None,
             vid = None, pid = None, serial_number = None, location = None \<rparr>"

definition ftdi :: port where
  "ftdi = \<lparr> device = ''/dev/ttyUSB0'', manufacturer = Some ''FTDI'', product = Some ''FT232R'',
             vid = Some 0x0403, pid = Some 0x6001, serial_number = Some ''A50285BI'',
             location = Some ''1-4'' \<rparr>"

subsection \<open>Example devices, hosts and sessions\<close>

text \<open>What the device answers when it runs the main firmware and when it runs the bootloader.\<close>

definition info_main :: unit_info where
  "info_main = \<lparr> update_mode = False, hw_model = 7, hw_submodel = 0, major = 0, minor = 27,
                  update_needed = False, update_jumpered = False \<rparr>"

definition info_boot :: unit_info where
  "info_boot = info_main \<lparr> update_mode := True \<rparr>"

text \<open>
  The host at one turn: nothing enumerated; the unit enumerated but its port still busy;
  the unit enumerated in update mode; the unit enumerated running the main firmware; the
  host at the first open, with an unrelated adapter enumerated before the unit.
\<close>

definition host_absent :: open_env where
  "host_absent = \<lparr> comports_find = [], serial_open = (\<lambda>d. None),
                    unit_query = (\<lambda>d. info_boot), comports_info = [] \<rparr>"

definition host_busy :: open_env where
  "host_busy = \<lparr> comports_find = [gw_a_re], serial_open = (\<lambda>d. Some ''could not open port''),
                  unit_query = (\<lambda>d. info_boot), comports_info = [gw_a_re] \<rparr>"

definition host_boot :: open_env where
  "host_boot = \<lparr> comports_find = [gw_a_re], serial_open = (\<lambda>d. None),
                  unit_query = (\<lambda>d. info_boot), comports_info = [gw_a_re] \<rparr>"

definition host_main :: open_env where
  "host_main = \<lparr> comports_find = [gw_a_back], serial_open = (\<lambda>d. None),
                  unit_query = (\<lambda>d. info_main), comports_info = [gw_a_back] \<rparr>"

definition host_first :: open_env where
  "host_first = \<lparr> comports_find = [ftdi, gw_a], serial_open = (\<lambda>d. None),
                   unit_query = (\<lambda>d. info_main), comports_info = [ftdi, gw_a] \<rparr>"

text \<open>
  Mode switches: the unit comes back in update mode at the third turn, after the command's
  reply was lost; it comes back with the main firmware at the second turn, after a short
  reply; it never comes back; it comes back at once but has not changed mode.
\<close>

definition env_to_update :: reopen_env where
  "env_to_update =
     \<lparr> switch_fw_mode = (\<lambda>m. Some (SerialException ''device returned no data'')),
       attempts = (\<lambda>i. if i = 0 then host_absent else if i = 1 then host_busy else host_boot) \<rparr>"

definition env_to_main :: reopen_env where
  "env_to_main =
     \<lparr> switch_fw_mode = (\<lambda>m. Some StructError),
       attempts = (\<lambda>i. if i = 0 then host_absent else host_main) \<rparr>"

definition env_gone :: reopen_env where
  "env_gone = \<lparr> switch_fw_mode = (\<lambda>m. None), attempts = (\<lambda>i. host_absent) \<rparr>"

definition env_stays_main :: reopen_env where
  "env_stays_main = \<lparr> switch_fw_mode = (\<lambda>m. None), attempts = (\<lambda>i. host_main) \<rparr>"

definition env_stays_boot :: reopen_env where
  "env_stays_boot = \<lparr> switch_fw_mode = (\<lambda>m. None), attempts = (\<lambda>i. host_boot) \<rparr>"

text \<open>Sessions, and the hosts of a first open.\<close>

definition session_a :: usb where
  "session_a = \<lparr> update_mode = False, hw_model = 7, hw_submodel = 0, major = 0, minor = 27,
                  update_needed = False, update_jumpered = False,
                  ser = ''/dev/ttyACM0'', usb_port_info = Some gw_a,
                  jumperless_update = True, can_mode_switch = True \<rparr>"

definition session_boot :: usb where
  "session_boot = session_a \<lparr> update_mode := True, ser := ''/dev/ttyACM1'',
                               usb_port_info := Some gw_a_re \<rparr>"

definition session_back :: usb where
  "session_back = session_a \<lparr> ser := ''/dev/ttyACM2'', usb_port_info := Some gw_a_back \<rparr>"

definition session_jumpered :: usb where
  "session_jumpered = session_boot \<lparr> update_jumpered := True, can_mode_switch := False \<rparr>"

definition session_f1 :: usb where
  "session_f1 = session_a \<lparr> hw_model := 1, jumperless_update := False, can_mode_switch := False \<rparr>"

definition session_old :: usb where
  "session_old = session_a \<lparr> minor := 24, update_needed := True \<rparr>"

definition session_win7 :: usb where
  "session_win7 = session_a \<lparr> jumperless_update := False, can_mode_switch := False \<rparr>"

definition session_jumper_open :: usb where
  "session_jumper_open = session_a \<lparr> update_mode := True, update_jumpered := True,
                                      can_mode_switch := False \<rparr>"

definition linux_host :: host_env where
  "linux_host = \<lparr> platform_system = ''Linux'', platform_release = ''6.1.0'',
                   initial = host_first, reopen = env_to_update \<rparr>"

definition win7_host :: host_env where
  "win7_host = linux_host \<lparr> platform_system := ''Windows'', platform_release := ''7'' \<rparr>"

definition f1_host :: host_env where
  "f1_host = linux_host \<lparr> initial := host_first \<lparr> unit_query := (\<lambda>d. info_main \<lparr> hw_model := 1 \<rparr>) \<rparr> \<rparr>"

definition jumpered_host :: host_env where
  "jumpered_host =
     linux_host \<lparr> initial := host_first \<lparr> unit_query := (\<lambda>d. info_boot \<lparr> update_jumpered := True \<rparr>) \<rparr> \<rparr>"

section \<open>Properties\<close>

subsection \<open>Serial identifiers of the example ports\<close>

lemma valid_gw_a: "valid_ser_id (Some ''GW0001'')" by code_simp

lemma valid_gw_b: "valid_ser_id (Some ''gw0002'')" by code_simp

lemma invalid_none: "\<not> valid_ser_id None" by (simp add: valid_ser_id_def)

lemma invalid_ftdi: "\<not> valid_ser_id (Some ''A50285BI'')" by code_simp

lemma invalid_pico: "\<not> valid_ser_id (Some ''E6605481DB'')" by code_simp

subsection \<open>score_port\<close>

text \<open>
  C1, as the claim states it, fails: a candidate with a positive base score and a valid
  serial identifier equal to the previous port's scores 0, not 30, when the previous port
  carries a location and the candidate's location differs (here the same unit seen on another
  bus location).
\<close>

theorem score_port_serial_rule_counterexample:
  "0 < base_score gw_a_moved \<and> valid_ser_id (serial_number gw_a_moved)
   \<and> serial_number gw_a = serial_number gw_a_moved
   \<and> score_port gw_a_moved (Some gw_a) \<noteq> 30"
  by (simp add: gw_a_moved_def gw_a_def base_score_def score_port_def location_rule_def
        truthy_def valid_gw_a)

text \<open>
  C1, amended. For a candidate with a positive base score and a valid serial identifier:
  with no previous port the score is 20; when the previous port's serial identifier is
  valid and differs from the candidate's, the score is 0 whatever the base score; when the
  previous port carries a location that the candidate does not share, the score is 0; and
  when the location filter lets the candidate through (the previous port has no location, or
  the locations are equal), the score is 20 if the previous serial identifier is not valid
  and 30 if it equals the candidate's.
\<close>

theorem score_port_serial_rule:
  assumes "0 < base_score x" and "valid_ser_id (serial_number x)"
  shows "score_port x None = 20
    \<and> (valid_ser_id (serial_number old) \<and> serial_number x \<noteq> serial_number old
         \<longrightarrow> score_port x (Some old) = 0)
    \<and> (truthy (location old) \<and> location x \<noteq> location old \<longrightarrow> score_port x (Some old) = 0)
    \<and> (\<not> truthy (location old) \<or> location x = location old \<longrightarrow>
         (\<not> valid_ser_id (serial_number old) \<longrightarrow> score_port x (Some old) = 20)
       \<and> (serial_number old = serial_number x \<longrightarrow> score_port x (Some old) = 30))"
  using assms
  by (auto simp: score_port_def serial_rule_def location_rule_def)

theorem score_port_serial_rule_witness:
  "0 < base_score gw_a \<and> valid_ser_id (serial_number gw_a)
   \<and> 0 < base_score gw_a_moved \<and> valid_ser_id (serial_number gw_a_moved)
   \<and> score_port gw_a None = 20
   \<and> valid_ser_id (serial_number gw_b) \<and> serial_number gw_a \<noteq> serial_number gw_b
   \<and> score_port gw_a (Some gw_b) = 0
   \<and> truthy (location gw_a) \<and> location gw_a_moved \<noteq> location gw_a
   \<and> score_port gw_a_moved (Some gw_a) = 0
   \<and> location gw_a = location pico \<and> \<not> valid_ser_id (serial_number pico)
   \<and> score_port gw_a (Some pico) = 20
   \<and> score_port gw_a (Some gw_a) = 30"
  using score_port_serial_rule [of gw_a gw_b] score_port_serial_rule [of gw_a_moved gw_a]
    score_port_serial_rule [of gw_a pico] score_port_serial_rule [of gw_a gw_a]
  by (simp add: gw_a_def gw_a_moved_def gw_b_def pico_def base_score_def truthy_def
        valid_gw_a valid_gw_b invalid_pico)

text \<open>
  C2. When the previous port carries a non-empty location, a candidate with no location or
  with another location scores 0, whatever the identity and serial rules gave. When the
  locations are equal the filter leaves the running score as the identity and serial rules
  made it: the score is the one the candidate gets against the same previous port without
  its location, so the match adds nothing.
\<close>

theorem score_port_location_filter:
  assumes "truthy (location old)"
  shows "(\<not> truthy (location x) \<or> location x \<noteq> location old \<longrightarrow> score_port x (Some old) = 0)
    \<and> (location x = location old \<longrightarrow>
          score_port x (Some old) = serial_rule x (Some old) (base_score x)
        \<and> score_port x (Some old) = score_port x (Some (old\<lparr>location := None\<rparr>)))"
  using assms
  by (auto simp: score_port_def location_rule_def serial_rule_def truthy_def)

theorem score_port_location_filter_witness:
  "truthy (location gw_a)
   \<and> location gw_a_moved \<noteq> location gw_a \<and> score_port gw_a_moved (Some gw_a) = 0
   \<and> \<not> truthy (location gw_a_noloc) \<and> score_port gw_a_noloc (Some gw_a) = 0
   \<and> location pico = location gw_a \<and> score_port pico (Some gw_a) = 5
   \<and> score_port pico (Some (gw_a\<lparr>location := None\<rparr>)) = 5"
  using score_port_location_filter [of gw_a gw_a_moved] score_port_location_filter [of gw_a gw_a_noloc]
    score_port_location_filter [of gw_a pico]
  by (simp add: gw_a_def gw_a_moved_def gw_a_noloc_def pico_def base_score_def truthy_def
        serial_rule_def valid_gw_a invalid_pico)

text \<open>
  C3. The base score follows the rule table, the first rule that applies deciding: 20 on the
  manufacturer and product strings, 20 on the reserved id pair, 10 on the shared test id pair,
  5 on a vendor id of the allow-list, 0 when neither the strings nor the ids are recognised;
  it is one of 0, 5, 10, 20, never a sum. With no previous port the score is the base
  score, raised to 20 when it is positive and the serial identifier is valid. So a
  candidate with a recognised id pair or vendor id scores from 5 to 20, and one with nothing
  recognised scores 0.
\<close>

theorem score_port_no_previous:
  "(manufacturer x = Some ''Keir Fraser'' \<and> product x = Some ''Greaseweazle''
      \<longrightarrow> base_score x = 20)
   \<and> (vid x = Some 0x1209 \<and> pid x = Some 0x4d69 \<longrightarrow> base_score x = 20)
   \<and> (\<not> (manufacturer x = Some ''Keir Fraser'' \<and> product x = Some ''Greaseweazle'')
        \<and> vid x = Some 0x1209 \<and> pid x = Some 0x0001 \<longrightarrow> base_score x = 10)
   \<and> (\<not> (manufacturer x = Some ''Keir Fraser'' \<and> product x = Some ''Greaseweazle'')
        \<and> (vid x = Some 0x2E8A \<or> vid x = Some 0x239A) \<longrightarrow> base_score x = 5)
   \<and> (\<not> (manufacturer x = Some ''Keir Fraser'' \<and> product x = Some ''Greaseweazle'')
        \<and> \<not> (vid x = Some 0x1209 \<and> (pid x = Some 0x4d69 \<or> pid x = Some 0x0001))
        \<and> vid x \<noteq> Some 0x2E8A \<and> vid x \<noteq> Some 0x239A
      \<longrightarrow> base_score x = 0 \<and> score_port x None = 0)
   \<and> base_score x \<in> {0, 5, 10, 20}
   \<and> score_port x None =
        (if 0 < base_score x \<and> valid_ser_id (serial_number x) then 20 else base_score x)
   \<and> ((vid x = Some 0x1209 \<and> (pid x = Some 0x4d69 \<or> pid x = Some 0x0001))
        \<or> vid x = Some 0x2E8A \<or> vid x = Some 0x239A
      \<longrightarrow> 5 \<le> score_port x None \<and> score_port x None \<le> 20)"
  by (simp add: score_port_def location_rule_def serial_rule_def base_score_def)

theorem score_port_no_previous_witness:
  "base_score gw_a = 20 \<and> score_port gw_a None = 20
   \<and> base_score legacy = 10 \<and> score_port legacy None = 10
   \<and> base_score pico = 5 \<and> score_port pico None = 5
   \<and> base_score ftdi = 0 \<and> score_port ftdi None = 0"
  using score_port_no_previous [of gw_a] score_port_no_previous [of legacy]
    score_port_no_previous [of pico] score_port_no_previous [of ftdi]
  by (simp add: gw_a_def legacy_def pico_def ftdi_def invalid_none invalid_pico invalid_ftdi valid_gw_a)

text \<open>
  C10. A candidate whose serial identifier is absent or not valid never meets the serial
  rule: its score is its base score passed through the location filter alone, also when
  the previous port has a valid serial identifier.
\<close>

theorem score_port_without_serial:
  assumes "\<not> valid_ser_id (serial_number x)"
  shows "score_port x old_port = location_rule x old_port (base_score x)
    \<and> score_port x None = base_score x
    \<and> score_port x (Some old) =
        (if truthy (location old) \<and> (\<not> truthy (location x) \<or> location x \<noteq> location old)
         then 0 else base_score x)"
  using assms
  by (simp add: score_port_def location_rule_def serial_rule_def)

theorem score_port_without_serial_witness:
  "\<not> valid_ser_id (serial_number pico) \<and> valid_ser_id (serial_number gw_a)
   \<and> score_port pico (Some gw_a) = 5 \<and> base_score pico = 5
   \<and> \<not> valid_ser_id (serial_number legacy) \<and> score_port legacy (Some gw_a) = 0"
  using score_port_without_serial [of pico "Some gw_a" gw_a]
    score_port_without_serial [of legacy "Some gw_a" gw_a]
  by (simp add: gw_a_def pico_def legacy_def base_score_def truthy_def invalid_none
        valid_gw_a invalid_pico)

subsection \<open>find_port\<close>

text \<open>
  On an enumeration whose ports all have a vendor and a product id, the loop ends with the
  first port of maximal score, or with nothing when no score is above 0.
\<close>

lemma find_port_loop_usb:
  assumes "\<forall>x\<in>set xs. vid x \<noteq> None \<and> pid x \<noteq> None"
  shows "\<exists>bs' bp'. find_port_loop xs old (bs, bp) = Inr (bs', bp') \<and>
           (if \<forall>x\<in>set xs. score_port x old \<le> bs then bs' = bs \<and> bp' = bp
            else \<exists>i<length xs. bp' = Some (xs ! i) \<and> bs' = score_port (xs ! i) old \<and> bs < bs'
                   \<and> (\<forall>j<i. score_port (xs ! j) old < bs')
                   \<and> (\<forall>x\<in>set xs. score_port x old \<le> bs'))"
  using assms
proof (induction xs arbitrary: bs bp)
  case Nil
  then show ?case by simp
next
  case (Cons x xs)
  let ?s = "score_port x old"
  have usb: "\<forall>y\<in>set xs. vid y \<noteq> None \<and> pid y \<noteq> None" and x: "vid x \<noteq> None" "pid x \<noteq> None"
    using Cons.prems by auto
  show ?case
  proof (cases "?s > bs")
    case True
    from Cons.IH [OF usb, of ?s "Some x"] obtain bs' bp' where
      r: "find_port_loop xs old (?s, Some x) = Inr (bs', bp')" and
      c: "if \<forall>y\<in>set xs. score_port y old \<le> ?s then bs' = ?s \<and> bp' = Some x
          else \<exists>i<length xs. bp' = Some (xs ! i) \<and> bs' = score_port (xs ! i) old \<and> ?s < bs'
                 \<and> (\<forall>j<i. score_port (xs ! j) old < bs')
                 \<and> (\<forall>y\<in>set xs. score_port y old \<le> bs')"
      by blast
    have step: "find_port_loop (x # xs) old (bs, bp) = Inr (bs', bp')"
      using True x r by (auto simp: Let_def)
    have notall: "\<not> (\<forall>y\<in>set (x # xs). score_port y old \<le> bs)" using True by auto
    show ?thesis
    proof (cases "\<forall>y\<in>set xs. score_port y old \<le> ?s")
      case all: True
      with c have e: "bs' = ?s" "bp' = Some x" by auto
      have "0 < length (x # xs) \<and> bp' = Some ((x # xs) ! 0) \<and> bs' = score_port ((x # xs) ! 0) old
            \<and> bs < bs' \<and> (\<forall>j<0. score_port ((x # xs) ! j) old < bs')
            \<and> (\<forall>y\<in>set (x # xs). score_port y old \<le> bs')"
        using e True all by auto
      then show ?thesis using step notall by (metis (no_types, lifting))
    next
      case False
      with c obtain i where i: "i < length xs" "bp' = Some (xs ! i)" "bs' = score_port (xs ! i) old"
        "?s < bs'" "\<forall>j<i. score_port (xs ! j) old < bs'" "\<forall>y\<in>set xs. score_port y old \<le> bs'"
        by auto
      have "Suc i < length (x # xs) \<and> bp' = Some ((x # xs) ! Suc i)
            \<and> bs' = score_port ((x # xs) ! Suc i) old
            \<and> bs < bs' \<and> (\<forall>j<Suc i. score_port ((x # xs) ! j) old < bs')
            \<and> (\<forall>y\<in>set (x # xs). score_port y old \<le> bs')"
        using i True by (auto simp: less_Suc_eq_0_disj)
      then show ?thesis using step notall by (metis (no_types, lifting))
    qed
  next
    case False
    from Cons.IH [OF usb, of bs bp] obtain bs' bp' where
      r: "find_port_loop xs old (bs, bp) = Inr (bs', bp')" and
      c: "if \<forall>y\<in>set xs. score_port y old \<le> bs then bs' = bs \<and> bp' = bp
          else \<exists>i<length xs. bp' = Some (xs ! i) \<and> bs' = score_port (xs ! i) old \<and> bs < bs'
                 \<and> (\<forall>j<i. score_port (xs ! j) old < bs')
                 \<and> (\<forall>y\<in>set xs. score_port y old \<le> bs')"
      by blast
    have step: "find_port_loop (x # xs) old (bs, bp) = Inr (bs', bp')"
      using False x r by (auto simp: Let_def)
    show ?thesis
    proof (cases "\<forall>y\<in>set xs. score_port y old \<le> bs")
      case True
      then show ?thesis using c step False by auto
    next
      case nall: False
      with c obtain i where i: "i < length xs" "bp' = Some (xs ! i)" "bs' = score_port (xs ! i) old"
        "bs < bs'" "\<forall>j<i. score_port (xs ! j) old < bs'" "\<forall>y\<in>set xs. score_port y old \<le> bs'"
        by auto
      have notall: "\<not> (\<forall>y\<in>set (x # xs). score_port y old \<le> bs)" using nall by auto
      have "Suc i < length (x # xs) \<and> bp' = Some ((x # xs) ! Suc i)
            \<and> bs' = score_port ((x # xs) ! Suc i) old
            \<and> bs < bs' \<and> (\<forall>j<Suc i. score_port ((x # xs) ! j) old < bs')
            \<and> (\<forall>y\<in>set (x # xs). score_port y old \<le> bs')"
        using i False by (auto simp: less_Suc_eq_0_disj)
      then show ?thesis using step notall by (metis (no_types, lifting))
    qed
  qed
qed

lemma find_port_usb_snapshot:
  assumes "\<forall>x\<in>set ports. vid x \<noteq> None \<and> pid x \<noteq> None"
  shows "(find_port ports old = Inl (SerialException ''Cannot find the Greaseweazle device'')
            \<longleftrightarrow> (\<forall>x\<in>set ports. score_port x old \<le> 0))
       \<and> ((\<exists>x\<in>set ports. 0 < score_port x old) \<longrightarrow>
            (\<exists>i<length ports. find_port ports old = Inr (device (ports ! i))
                \<and> (\<forall>x\<in>set ports. score_port x old \<le> score_port (ports ! i) old)
                \<and> (\<forall>j<i. score_port (ports ! j) old < score_port (ports ! i) old)))"
proof -
  from find_port_loop_usb [OF assms, of old 0 None] obtain bs' bp' where
    r: "find_port_loop ports old (0, None) = Inr (bs', bp')" and
    c: "if \<forall>x\<in>set ports. score_port x old \<le> 0 then bs' = 0 \<and> bp' = None
        else \<exists>i<length ports. bp' = Some (ports ! i) \<and> bs' = score_port (ports ! i) old \<and> 0 < bs'
               \<and> (\<forall>j<i. score_port (ports ! j) old < bs')
               \<and> (\<forall>x\<in>set ports. score_port x old \<le> bs')"
    by blast
  show ?thesis
  proof (cases "\<forall>x\<in>set ports. score_port x old \<le> 0")
    case True
    then have "bp' = None" using c by simp
    then have "find_port ports old = Inl (SerialException ''Cannot find the Greaseweazle device'')"
      using r by (simp add: find_port_def)
    then show ?thesis using True by fastforce
  next
    case False
    with c obtain i where i: "i < length ports" "bp' = Some (ports ! i)"
      "bs' = score_port (ports ! i) old" "\<forall>j<i. score_port (ports ! j) old < bs'"
      "\<forall>x\<in>set ports. score_port x old \<le> bs'"
      by auto
    have f: "find_port ports old = Inr (device (ports ! i))"
      using r i by (simp add: find_port_def)
    show ?thesis using False f i by auto
  qed
qed

text \<open>
  C4. The claim does not hold of the code on an enumeration with a port that is not a USB
  device: the debug line formats \<^verbatim>\<open>x.vid\<close> with \<^verbatim>\<open>%04X\<close>, and find_port ends with
  TypeError, both when no port scores above 0 (where the claim gives the failure of
  find_port, a SerialException) and when a Greaseweazle is listed (where the claim gives
  its device).
\<close>

theorem find_port_type_error:
  "find_port [ttyS0] None = Inl TypeError \<and> find_port [gw_a, ttyS0] None = Inl TypeError"
  by (simp add: find_port_def ttyS0_def gw_a_def Let_def score_port_def location_rule_def
        serial_rule_def base_score_def valid_gw_a)

subsection \<open>usb_reopen\<close>

text \<open>The retry loop, one turn at a time, and what it does over its turns.\<close>

lemma reopen_loop_fail_step:
  assumes "attempt_fails env usb i"
  shows "reopen_loop env usb i (Suc n) =
           (Sleep # fst (reopen_loop env usb (Suc i) n), snd (reopen_loop env usb (Suc i) n))"
  using assms by (auto simp: Let_def split: prod.splits)

lemma reopen_loop_open_step:
  assumes "attempt_opens env usb i d"
  shows "reopen_loop env usb i (Suc n) = ([Sleep], Inr (reopened (attempts env i) d usb))"
  using assms by (simp add: Let_def)

lemma reopen_loop_exhausted:
  "(\<forall>j<n. attempt_fails env usb (i + j)) \<Longrightarrow>
     reopen_loop env usb i n = (replicate n Sleep, Inl timeout_error)"
proof (induction n arbitrary: i)
  case 0
  then show ?case by simp
next
  case (Suc n)
  have f: "attempt_fails env usb i" using Suc.prems [rule_format, of 0] by simp
  have "\<forall>j<n. attempt_fails env usb (Suc i + j)"
  proof (intro allI impI)
    fix j assume "j < n"
    then have "Suc j < Suc n" by simp
    from Suc.prems [rule_format, OF this] show "attempt_fails env usb (Suc i + j)" by simp
  qed
  from Suc.IH [OF this] show ?case
    by (simp add: reopen_loop_fail_step [OF f] del: reopen_loop.simps)
qed

lemma reopen_loop_first_open:
  "k < n \<Longrightarrow> (\<forall>j<k. attempt_fails env usb (i + j)) \<Longrightarrow> attempt_opens env usb (i + k) d \<Longrightarrow>
     reopen_loop env usb i n = (replicate (Suc k) Sleep, Inr (reopened (attempts env (i + k)) d usb))"
proof (induction k arbitrary: i n)
  case 0
  then obtain n' where "n = Suc n'" by (cases n) auto
  with 0 show ?case by (simp add: reopen_loop_open_step)
next
  case (Suc k)
  then obtain n' where n: "n = Suc n'" "k < n'" by (cases n) auto
  have f: "attempt_fails env usb i" using Suc.prems(2) [rule_format, of 0] by simp
  have rest: "\<forall>j<k. attempt_fails env usb (Suc i + j)"
  proof (intro allI impI)
    fix j assume "j < k"
    then have "Suc j < Suc k" by simp
    from Suc.prems(2) [rule_format, OF this] show "attempt_fails env usb (Suc i + j)" by simp
  qed
  have opn: "attempt_opens env usb (Suc i + k) d" using Suc.prems(3) by simp
  from Suc.IH [OF n(2) rest opn] show ?case
    by (simp add: n reopen_loop_fail_step [OF f] del: reopen_loop.simps)
qed

lemma reopen_loop_sleeps:
  "length (filter (\<lambda>ev. ev = Sleep) (fst (reopen_loop env usb i n))) \<le> n"
proof (induction n arbitrary: i)
  case 0
  then show ?case by simp
next
  case (Suc n)
  from Suc.IH [of "Suc i"] show ?case
    by (auto simp: Let_def split: sum.splits option.splits prod.splits)
qed


lemma reopen_loop_switch_irrelevant:
  "reopen_loop (env\<lparr>switch_fw_mode := f\<rparr>) usb i n = reopen_loop env usb i n"
  by (induction n arbitrary: i) (simp_all add: Let_def)

text \<open>The example hosts: what find_port returns on them.\<close>

lemma find_nothing: "find_port [] old = Inl (SerialException ''Cannot find the Greaseweazle device'')"
  by (simp add: find_port_def)

lemma score_same_unit:
  "score_port gw_a_re (Some gw_a) = 30 \<and> score_port gw_a_back (Some gw_a_re) = 30"
  by (simp add: gw_a_re_def gw_a_back_def gw_a_def score_port_def location_rule_def
        serial_rule_def base_score_def truthy_def valid_gw_a)

lemma find_same_unit:
  "find_port [gw_a_re] (Some gw_a) = Inr ''/dev/ttyACM1''
   \<and> find_port [gw_a_back] (Some gw_a_re) = Inr ''/dev/ttyACM2''"
  by (simp add: find_port_def Let_def score_same_unit)
     (simp add: gw_a_re_def gw_a_back_def gw_a_def)

text \<open>
  C6. When the mode-change command returns, or raises one of the two exceptions that are
  caught, the retry loop sleeps at most 10 times. If each of the 10 turns fails with the
  SerialException of find_port or of \<^verbatim>\<open>serial.Serial\<close>, usb_reopen has slept 10 times and
  raises the SerialException ``Could not reopen port after mode switch''. If turn \<open>k\<close>,
  below 10, is the first that does not fail so, and opens device \<open>d\<close>, usb_reopen has slept
  \<open>k + 1\<close> times and returns the session opened at that turn: a new session whose channel
  is on \<open>d\<close>, whose port is the entry of \<open>d\<close> in the enumeration read at that turn, whose
  mode, hardware model and submodel, version, update_needed and update_jumpered are
  what the device on \<open>d\<close> answers at that turn, and whose jumperless_update and
  can_mode_switch are those of the session that was closed. Every turn looks for the port
  of the session that was closed.
\<close>

theorem usb_reopen_retry_loop:
  assumes "switch_fw_mode env (if is_update then 0 else 1) = None
           \<or> (\<exists>m. switch_fw_mode env (if is_update then 0 else 1) = Some (SerialException m))
           \<or> switch_fw_mode env (if is_update then 0 else 1) = Some StructError"
  shows "length (filter (\<lambda>ev. ev = Sleep) (fst (usb_reopen env usb is_update))) \<le> 10
    \<and> ((\<forall>i<10. attempt_fails env usb i) \<longrightarrow>
         usb_reopen env usb is_update =
           (SwitchFwMode (if is_update then 0 else 1) # SerClose (ser usb) # replicate 10 Sleep,
            Inl timeout_error))
    \<and> (k < 10 \<and> (\<forall>i<k. attempt_fails env usb i) \<and> attempt_opens env usb k d \<longrightarrow>
         usb_reopen env usb is_update =
           (SwitchFwMode (if is_update then 0 else 1) # SerClose (ser usb) # replicate (Suc k) Sleep,
            Inr (reopened (attempts env k) d usb))
         \<and> (\<exists>new_usb.
               snd (usb_reopen env usb is_update) = Inr new_usb
             \<and> ser new_usb = d
             \<and> usb_port_info new_usb = port_info (comports_info (attempts env k)) d
             \<and> update_mode new_usb = update_mode (unit_query (attempts env k) d)
             \<and> hw_model new_usb = hw_model (unit_query (attempts env k) d)
             \<and> hw_submodel new_usb = hw_submodel (unit_query (attempts env k) d)
             \<and> major new_usb = major (unit_query (attempts env k) d)
             \<and> minor new_usb = minor (unit_query (attempts env k) d)
             \<and> update_needed new_usb = update_needed (unit_query (attempts env k) d)
             \<and> update_jumpered new_usb = update_jumpered (unit_query (attempts env k) d)
             \<and> jumperless_update new_usb = jumperless_update usb
             \<and> can_mode_switch new_usb = can_mode_switch usb))"
proof -
  let ?m = "if is_update then 0 else 1 :: nat"
  have r: "usb_reopen env usb is_update =
             (SwitchFwMode ?m # SerClose (ser usb) # fst (reopen_loop env usb 0 10),
              snd (reopen_loop env usb 0 10))"
    using assms by (auto simp: usb_reopen_def Let_def split: prod.splits)
  have a: "length (filter (\<lambda>ev. ev = Sleep) (fst (usb_reopen env usb is_update))) \<le> 10"
    using reopen_loop_sleeps [where env = env and usb = usb and i = 0 and n = 10]
    by (simp add: r)
  have b: "usb_reopen env usb is_update =
             (SwitchFwMode ?m # SerClose (ser usb) # replicate 10 Sleep, Inl timeout_error)"
    if "\<forall>i<10. attempt_fails env usb i"
    using reopen_loop_exhausted [where n = 10 and env = env and usb = usb and i = 0] that
    by (simp add: r)
  have c: "usb_reopen env usb is_update =
             (SwitchFwMode ?m # SerClose (ser usb) # replicate (Suc k) Sleep,
              Inr (reopened (attempts env k) d usb))"
    if "k < 10" "\<forall>i<k. attempt_fails env usb i" "attempt_opens env usb k d"
    using reopen_loop_first_open [where k = k and n = 10 and env = env and usb = usb and i = 0
        and d = d] that
    by (simp add: r)
  have d: "\<exists>new_usb.
               snd (usb_reopen env usb is_update) = Inr new_usb
             \<and> ser new_usb = d
             \<and> usb_port_info new_usb = port_info (comports_info (attempts env k)) d
             \<and> update_mode new_usb = update_mode (unit_query (attempts env k) d)
             \<and> hw_model new_usb = hw_model (unit_query (attempts env k) d)
             \<and> hw_submodel new_usb = hw_submodel (unit_query (attempts env k) d)
             \<and> major new_usb = major (unit_query (attempts env k) d)
             \<and> minor new_usb = minor (unit_query (attempts env k) d)
             \<and> update_needed new_usb = update_needed (unit_query (attempts env k) d)
             \<and> update_jumpered new_usb = update_jumpered (unit_query (attempts env k) d)
             \<and> jumperless_update new_usb = jumperless_update usb
             \<and> can_mode_switch new_usb = can_mode_switch usb"
    if "k < 10" "\<forall>i<k. attempt_fails env usb i" "attempt_opens env usb k d"
    using c [OF that] by (simp add: reopened_def Let_def)
  from a b c d show ?thesis by blast
qed

theorem usb_reopen_retry_loop_witness:
  "switch_fw_mode env_to_update 0 = Some (SerialException ''device returned no data'')
   \<and> attempt_fails env_to_update session_a 0 \<and> attempt_fails env_to_update session_a 1
   \<and> attempt_opens env_to_update session_a 2 ''/dev/ttyACM1''
   \<and> usb_reopen env_to_update session_a True =
       ([SwitchFwMode 0, SerClose ''/dev/ttyACM0'', Sleep, Sleep, Sleep],
        Inr (reopened host_boot ''/dev/ttyACM1'' session_a))
   \<and> (\<exists>new_usb.
         snd (usb_reopen env_to_update session_a True) = Inr new_usb
       \<and> ser new_usb = ''/dev/ttyACM1''
       \<and> ser new_usb \<noteq> ser session_a
       \<and> usb_port_info new_usb = Some gw_a_re
       \<and> update_mode new_usb \<and> \<not> update_mode session_a
       \<and> hw_model new_usb = 7 \<and> hw_submodel new_usb = 0
       \<and> major new_usb = 0 \<and> minor new_usb = 27
       \<and> \<not> update_needed new_usb \<and> \<not> update_jumpered new_usb
       \<and> jumperless_update new_usb \<and> can_mode_switch new_usb)
   \<and> switch_fw_mode env_gone 0 = None
   \<and> attempt_fails env_gone session_a 0 \<and> attempt_fails env_gone session_a 1
   \<and> attempt_fails env_gone session_a 2 \<and> attempt_fails env_gone session_a 3
   \<and> attempt_fails env_gone session_a 4 \<and> attempt_fails env_gone session_a 5
   \<and> attempt_fails env_gone session_a 6 \<and> attempt_fails env_gone session_a 7
   \<and> attempt_fails env_gone session_a 8 \<and> attempt_fails env_gone session_a 9
   \<and> usb_reopen env_gone session_a True =
       (SwitchFwMode 0 # SerClose ''/dev/ttyACM0'' # replicate 10 Sleep, Inl timeout_error)"
proof -
  have f: "\<forall>i<2. attempt_fails env_to_update session_a i"
    by (simp add: env_to_update_def session_a_def host_absent_def host_busy_def
          find_nothing find_same_unit less_Suc_eq numeral_2_eq_2)
  have g: "\<forall>i<10. attempt_fails env_gone session_a i"
    by (simp add: env_gone_def host_absent_def find_nothing)
  have sw: "switch_fw_mode env_to_update (if True then 0 else 1) = None
      \<or> (\<exists>m. switch_fw_mode env_to_update (if True then 0 else 1) = Some (SerialException m))
      \<or> switch_fw_mode env_to_update (if True then 0 else 1) = Some StructError"
    by (simp add: env_to_update_def)
  have o: "attempt_opens env_to_update session_a 2 ''/dev/ttyACM1''"
    by (simp add: env_to_update_def session_a_def host_boot_def find_same_unit)
  have at: "attempts env_to_update 2 = host_boot"
    by (simp add: env_to_update_def)
  have q: "unit_query host_boot ''/dev/ttyACM1'' = info_boot
           \<and> port_info (comports_info host_boot) ''/dev/ttyACM1'' = Some gw_a_re"
    by (simp add: host_boot_def gw_a_re_def gw_a_def)
  have s: "ser session_a = ''/dev/ttyACM0'' \<and> \<not> update_mode session_a
           \<and> jumperless_update session_a \<and> can_mode_switch session_a"
    by (simp add: session_a_def)
  have i: "update_mode info_boot \<and> hw_model info_boot = 7 \<and> hw_submodel info_boot = 0
           \<and> major info_boot = 0 \<and> minor info_boot = 27
           \<and> \<not> update_needed info_boot \<and> \<not> update_jumpered info_boot"
    by (simp add: info_boot_def info_main_def)
  have pre: "2 < (10::nat) \<and> (\<forall>i<2. attempt_fails env_to_update session_a i)
             \<and> attempt_opens env_to_update session_a 2 ''/dev/ttyACM1''"
    using f o by simp
  have rep: "replicate 3 Sleep = [Sleep, Sleep, Sleep]"
    by (simp add: numeral_3_eq_3)
  from usb_reopen_retry_loop [OF sw, where k = 2 and usb = session_a
      and d = "''/dev/ttyACM1''"] pre
  have t: "usb_reopen env_to_update session_a True =
             (SwitchFwMode (if True then 0 else 1) # SerClose (ser session_a) #
                replicate (Suc 2) Sleep,
              Inr (reopened (attempts env_to_update 2) ''/dev/ttyACM1'' session_a))
         \<and> (\<exists>new_usb.
               snd (usb_reopen env_to_update session_a True) = Inr new_usb
             \<and> ser new_usb = ''/dev/ttyACM1''
             \<and> usb_port_info new_usb =
                 port_info (comports_info (attempts env_to_update 2)) ''/dev/ttyACM1''
             \<and> update_mode new_usb =
                 update_mode (unit_query (attempts env_to_update 2) ''/dev/ttyACM1'')
             \<and> hw_model new_usb =
                 hw_model (unit_query (attempts env_to_update 2) ''/dev/ttyACM1'')
             \<and> hw_submodel new_usb =
                 hw_submodel (unit_query (attempts env_to_update 2) ''/dev/ttyACM1'')
             \<and> major new_usb = major (unit_query (attempts env_to_update 2) ''/dev/ttyACM1'')
             \<and> minor new_usb = minor (unit_query (attempts env_to_update 2) ''/dev/ttyACM1'')
             \<and> update_needed new_usb =
                 update_needed (unit_query (attempts env_to_update 2) ''/dev/ttyACM1'')
             \<and> update_jumpered new_usb =
                 update_jumpered (unit_query (attempts env_to_update 2) ''/dev/ttyACM1'')
             \<and> jumperless_update new_usb = jumperless_update session_a
             \<and> can_mode_switch new_usb = can_mode_switch session_a)"
    by blast
  from t have t1: "usb_reopen env_to_update session_a True =
       ([SwitchFwMode 0, SerClose ''/dev/ttyACM0'', Sleep, Sleep, Sleep],
        Inr (reopened host_boot ''/dev/ttyACM1'' session_a))"
    by (simp add: at s rep)
  from t obtain new_usb where n:
    "snd (usb_reopen env_to_update session_a True) = Inr new_usb"
    "ser new_usb = ''/dev/ttyACM1''"
    "usb_port_info new_usb = port_info (comports_info (attempts env_to_update 2)) ''/dev/ttyACM1''"
    "update_mode new_usb = update_mode (unit_query (attempts env_to_update 2) ''/dev/ttyACM1'')"
    "hw_model new_usb = hw_model (unit_query (attempts env_to_update 2) ''/dev/ttyACM1'')"
    "hw_submodel new_usb = hw_submodel (unit_query (attempts env_to_update 2) ''/dev/ttyACM1'')"
    "major new_usb = major (unit_query (attempts env_to_update 2) ''/dev/ttyACM1'')"
    "minor new_usb = minor (unit_query (attempts env_to_update 2) ''/dev/ttyACM1'')"
    "update_needed new_usb = update_needed (unit_query (attempts env_to_update 2) ''/dev/ttyACM1'')"
    "update_jumpered new_usb =
       update_jumpered (unit_query (attempts env_to_update 2) ''/dev/ttyACM1'')"
    "jumperless_update new_usb = jumperless_update session_a"
    "can_mode_switch new_usb = can_mode_switch session_a"
    by blast
  have t2: "snd (usb_reopen env_to_update session_a True) = Inr new_usb
       \<and> ser new_usb = ''/dev/ttyACM1''
       \<and> ser new_usb \<noteq> ser session_a
       \<and> usb_port_info new_usb = Some gw_a_re
       \<and> update_mode new_usb \<and> \<not> update_mode session_a
       \<and> hw_model new_usb = 7 \<and> hw_submodel new_usb = 0
       \<and> major new_usb = 0 \<and> minor new_usb = 27
       \<and> \<not> update_needed new_usb \<and> \<not> update_jumpered new_usb
       \<and> jumperless_update new_usb \<and> can_mode_switch new_usb"
    using n by (simp add: at q s i)
  have opened: "usb_reopen env_to_update session_a True =
       ([SwitchFwMode 0, SerClose ''/dev/ttyACM0'', Sleep, Sleep, Sleep],
        Inr (reopened host_boot ''/dev/ttyACM1'' session_a))
     \<and> (\<exists>new_usb.
         snd (usb_reopen env_to_update session_a True) = Inr new_usb
       \<and> ser new_usb = ''/dev/ttyACM1''
       \<and> ser new_usb \<noteq> ser session_a
       \<and> usb_port_info new_usb = Some gw_a_re
       \<and> update_mode new_usb \<and> \<not> update_mode session_a
       \<and> hw_model new_usb = 7 \<and> hw_submodel new_usb = 0
       \<and> major new_usb = 0 \<and> minor new_usb = 27
       \<and> \<not> update_needed new_usb \<and> \<not> update_jumpered new_usb
       \<and> jumperless_update new_usb \<and> can_mode_switch new_usb)"
    using t1 t2 by blast
  have sw2: "switch_fw_mode env_gone (if True then 0 else 1) = None
      \<or> (\<exists>m. switch_fw_mode env_gone (if True then 0 else 1) = Some (SerialException m))
      \<or> switch_fw_mode env_gone (if True then 0 else 1) = Some StructError"
    by (simp add: env_gone_def)
  from usb_reopen_retry_loop [OF sw2, where k = 0 and usb = session_a
      and d = "''/dev/ttyACM0''"] g
  have "usb_reopen env_gone session_a True =
       (SwitchFwMode (if True then 0 else 1) # SerClose (ser session_a) # replicate 10 Sleep,
        Inl timeout_error)"
    by blast
  then have gone: "usb_reopen env_gone session_a True =
       (SwitchFwMode 0 # SerClose ''/dev/ttyACM0'' # replicate 10 Sleep, Inl timeout_error)"
    by (simp add: s)
  have f': "attempt_fails env_to_update session_a 0 \<and> attempt_fails env_to_update session_a 1"
    using f by simp
  have g': "attempt_fails env_gone session_a 0 \<and> attempt_fails env_gone session_a 1
   \<and> attempt_fails env_gone session_a 2 \<and> attempt_fails env_gone session_a 3
   \<and> attempt_fails env_gone session_a 4 \<and> attempt_fails env_gone session_a 5
   \<and> attempt_fails env_gone session_a 6 \<and> attempt_fails env_gone session_a 7
   \<and> attempt_fails env_gone session_a 8 \<and> attempt_fails env_gone session_a 9"
    using g by simp
  have sw0: "switch_fw_mode env_to_update 0 = Some (SerialException ''device returned no data'')
             \<and> switch_fw_mode env_gone 0 = None"
    by (simp add: env_to_update_def env_gone_def)
  from sw0 f' o opened g' gone show ?thesis by blast
qed


text \<open>The two example mode switches, evaluated.\<close>

lemma reopen_to_update:
  "usb_reopen env_to_update session_a True =
     ([SwitchFwMode 0, SerClose ''/dev/ttyACM0'', Sleep, Sleep, Sleep], Inr session_boot)"
  by (simp add: usb_reopen_def Let_def numeral_eq_Suc env_to_update_def session_a_def
        host_absent_def host_busy_def host_boot_def find_nothing find_same_unit reopened_def
        session_boot_def info_boot_def info_main_def)
     (simp add: gw_a_re_def gw_a_def)

lemma reopen_to_main:
  "usb_reopen env_to_main session_boot False =
     ([SwitchFwMode 1, SerClose ''/dev/ttyACM1'', Sleep, Sleep], Inr session_back)"
  by (simp add: usb_reopen_def Let_def numeral_eq_Suc env_to_main_def session_a_def
        host_absent_def host_main_def find_nothing find_same_unit reopened_def
        session_boot_def session_back_def info_main_def)
     (simp add: gw_a_back_def gw_a_def)



text \<open>
  C7. When the mode-change command raises a SerialException or \<^verbatim>\<open>struct.error\<close>,
  usb_reopen goes on as if it had returned: it closes the channel of the session, runs the
  retry loop from its first turn, and ends as the loop ends.
\<close>

theorem usb_reopen_switch_error_swallowed:
  assumes "mode = (if is_update then 0 else 1)"
    and "(\<exists>m. switch_fw_mode env mode = Some (SerialException m))
         \<or> switch_fw_mode env mode = Some StructError"
  shows "usb_reopen env usb is_update =
           (SwitchFwMode mode # SerClose (ser usb) # fst (reopen_loop env usb 0 10),
            snd (reopen_loop env usb 0 10))
       \<and> usb_reopen env usb is_update = usb_reopen (env\<lparr>switch_fw_mode := \<lambda>m. None\<rparr>) usb is_update"
  using assms
  by (auto simp: usb_reopen_def Let_def reopen_loop_switch_irrelevant split: prod.splits)

theorem usb_reopen_switch_error_swallowed_witness:
  "switch_fw_mode env_to_update 0 = Some (SerialException ''device returned no data'')
   \<and> switch_fw_mode env_to_main 1 = Some StructError
   \<and> usb_reopen env_to_update session_a True =
       (SwitchFwMode 0 # SerClose ''/dev/ttyACM0'' # fst (reopen_loop env_to_update session_a 0 10),
        snd (reopen_loop env_to_update session_a 0 10))
   \<and> usb_reopen env_to_update session_a True =
       usb_reopen (env_to_update\<lparr>switch_fw_mode := \<lambda>m. None\<rparr>) session_a True
   \<and> usb_reopen env_to_main session_boot False =
       (SwitchFwMode 1 # SerClose ''/dev/ttyACM1'' # fst (reopen_loop env_to_main session_boot 0 10),
        snd (reopen_loop env_to_main session_boot 0 10))"
proof -
  have a: "switch_fw_mode env_to_update 0 = Some (SerialException ''device returned no data'')"
    by (simp add: env_to_update_def)
  have b: "switch_fw_mode env_to_main 1 = Some StructError"
    by (simp add: env_to_main_def)
  have c: "ser session_a = ''/dev/ttyACM0''" "ser session_boot = ''/dev/ttyACM1''"
    by (simp_all add: session_boot_def session_a_def)
  have x: "usb_reopen env_to_update session_a True =
             (SwitchFwMode 0 # SerClose (ser session_a) # fst (reopen_loop env_to_update session_a 0 10),
              snd (reopen_loop env_to_update session_a 0 10))
         \<and> usb_reopen env_to_update session_a True =
             usb_reopen (env_to_update\<lparr>switch_fw_mode := \<lambda>m. None\<rparr>) session_a True"
    by (rule usb_reopen_switch_error_swallowed) (use a in simp_all)
  have y: "usb_reopen env_to_main session_boot False =
             (SwitchFwMode 1 # SerClose (ser session_boot) # fst (reopen_loop env_to_main session_boot 0 10),
              snd (reopen_loop env_to_main session_boot 0 10))
         \<and> usb_reopen env_to_main session_boot False =
             usb_reopen (env_to_main\<lparr>switch_fw_mode := \<lambda>m. None\<rparr>) session_boot False"
    by (rule usb_reopen_switch_error_swallowed) (use b in simp_all)
  show ?thesis using x y a b unfolding c by blast
qed



subsection \<open>usb_mode_check\<close>

text \<open>More example mode switches, evaluated.\<close>

lemma show_nat_examples: "show_nat 0 = ''0'' \<and> show_nat 24 = ''24''"
  by code_simp

lemma score_stays:
  "score_port gw_a_back (Some gw_a) = 30 \<and> score_port gw_a_re (Some gw_a_re) = 30"
  by (simp add: gw_a_re_def gw_a_back_def gw_a_def score_port_def location_rule_def
        serial_rule_def base_score_def truthy_def valid_gw_a)

lemma find_stays:
  "find_port [gw_a_back] (Some gw_a) = Inr ''/dev/ttyACM2''
   \<and> find_port [gw_a_re] (Some gw_a_re) = Inr ''/dev/ttyACM1''"
  by (simp add: find_port_def Let_def score_stays)
     (simp add: gw_a_re_def gw_a_back_def gw_a_def)

lemma reopen_stays_main:
  "usb_reopen env_stays_main session_a True =
     ([SwitchFwMode 0, SerClose ''/dev/ttyACM0'', Sleep], Inr session_back)"
  by (simp add: usb_reopen_def Let_def numeral_eq_Suc env_stays_main_def session_a_def
        host_main_def find_stays reopened_def session_back_def info_main_def)
     (simp add: gw_a_back_def gw_a_def)

lemma reopen_stays_boot:
  "usb_reopen env_stays_boot session_boot False =
     ([SwitchFwMode 1, SerClose ''/dev/ttyACM1'', Sleep], Inr session_boot)"
  by (simp add: usb_reopen_def Let_def numeral_eq_Suc env_stays_boot_def session_a_def
        host_boot_def find_stays reopened_def session_boot_def info_main_def info_boot_def)
     (simp add: gw_a_re_def gw_a_def)

lemma reopen_gone:
  "usb_reopen env_gone session_a True =
     (SwitchFwMode 0 # SerClose ''/dev/ttyACM0'' # replicate 10 Sleep,
      Inl (SerialException ''Could not reopen port after mode switch''))"
  by (simp add: usb_reopen_def Let_def numeral_eq_Suc env_gone_def session_a_def
        host_absent_def find_nothing)

text \<open>
  C5, as the claim states it, fails: a session in normal mode that can switch mode, asked
  for an update, whose unit comes back from the switch still in normal mode, does not end
  in \<^verbatim>\<open>sys.exit(1)\<close> after a printed report. It ends in the failure of \<^verbatim>\<open>error.check\<close>, which
  carries the description, and nothing is printed by usb_mode_check.
\<close>

theorem usb_mode_check_counterexample:
  "\<not> update_mode session_a \<and> can_mode_switch session_a
   \<and> usb_reopen env_stays_main session_a True =
       ([SwitchFwMode 0, SerClose ''/dev/ttyACM0'', Sleep], Inr session_back)
   \<and> \<not> update_mode session_back
   \<and> usb_mode_check env_stays_main session_a True =
       ([SwitchFwMode 0, SerClose ''/dev/ttyACM0'', Sleep], Inl (Fatal not_changed_msg))
   \<and> snd (usb_mode_check env_stays_main session_a True) \<noteq> Inl (SystemExit 1)"
proof -
  have m: "\<not> update_mode session_a \<and> can_mode_switch session_a \<and> \<not> update_mode session_back"
    by (simp add: session_a_def session_back_def)
  then have "usb_mode_check env_stays_main session_a True =
       ([SwitchFwMode 0, SerClose ''/dev/ttyACM0'', Sleep], Inl (Fatal not_changed_msg))"
    by (simp add: usb_mode_check_def reopen_stays_main error_check_def)
  then show ?thesis using m reopen_stays_main by simp
qed

text \<open>
  C5, amended. usb_mode_check follows the transition table. When the mode does not suit
  the operation and the session cannot switch mode, it prints a report and exits with
  status 1. When it can switch, the outcome of usb_reopen decides: an error of usb_reopen
  is passed on; a unit back in the mode asked for gives the new session; a unit still in
  update mode when normal operation was asked for gives the printed report and exit status
  1; a unit still in normal mode when an update was asked for gives the failure of
  \<^verbatim>\<open>error.check\<close> with its description. A session in normal mode with update_needed set,
  asked for normal operation, gives a printed report and exit status 1. When mode and
  operation agree and that last case does not apply, the session is returned as it is,
  with nothing done. Every session returned is in the mode asked for, and the report that
  the unit is in update mode starts with a line that says so.
\<close>

theorem usb_mode_check_table:
  "(update_mode usb \<and> \<not> is_update \<and> \<not> can_mode_switch usb \<longrightarrow>
      usb_mode_check env usb is_update = (in_update_mode_report usb, Inl (SystemExit 1)))
   \<and> (\<not> update_mode usb \<and> is_update \<and> \<not> can_mode_switch usb \<longrightarrow>
      usb_mode_check env usb is_update =
        (Print ''ERROR: Greaseweazle is not in Firmware Update Mode'' #
         print_update_instructions usb, Inl (SystemExit 1)))
   \<and> (update_mode usb \<and> \<not> is_update \<and> can_mode_switch usb
        \<and> usb_reopen env usb is_update = (tr, Inr usb') \<and> update_mode usb' \<longrightarrow>
      usb_mode_check env usb is_update = (tr @ in_update_mode_report usb', Inl (SystemExit 1)))
   \<and> (update_mode usb \<and> \<not> is_update \<and> can_mode_switch usb
        \<and> usb_reopen env usb is_update = (tr, Inr usb') \<and> \<not> update_mode usb' \<longrightarrow>
      usb_mode_check env usb is_update = (tr, Inr usb'))
   \<and> (\<not> update_mode usb \<and> is_update \<and> can_mode_switch usb
        \<and> usb_reopen env usb is_update = (tr, Inr usb') \<and> \<not> update_mode usb' \<longrightarrow>
      usb_mode_check env usb is_update = (tr, Inl (Fatal not_changed_msg)))
   \<and> (\<not> update_mode usb \<and> is_update \<and> can_mode_switch usb
        \<and> usb_reopen env usb is_update = (tr, Inr usb') \<and> update_mode usb' \<longrightarrow>
      usb_mode_check env usb is_update = (tr, Inr usb'))
   \<and> (update_mode usb \<noteq> is_update \<and> can_mode_switch usb
        \<and> usb_reopen env usb is_update = (tr, Inl e) \<longrightarrow>
      usb_mode_check env usb is_update = (tr, Inl e))
   \<and> (\<not> update_mode usb \<and> \<not> is_update \<and> update_needed usb \<longrightarrow>
      usb_mode_check env usb is_update =
        (Print (''ERROR: Greaseweazle firmware v'' @ show_nat (major usb) @ ''.'' @
                show_nat (minor usb) @ '' is unsupported'') #
         print_update_instructions usb, Inl (SystemExit 1)))
   \<and> (update_mode usb = is_update \<and> \<not> (\<not> update_mode usb \<and> update_needed usb) \<longrightarrow>
      usb_mode_check env usb is_update = ([], Inr usb))
   \<and> (\<forall>u. snd (usb_mode_check env usb is_update) = Inr u \<longrightarrow> update_mode u = is_update)
   \<and> (\<exists>rest. in_update_mode_report u =
                Print ''ERROR: Greaseweazle is in Firmware Update Mode'' # rest)"
proof -
  have c1: "(update_mode usb \<and> \<not> is_update \<and> \<not> can_mode_switch usb \<longrightarrow>
      usb_mode_check env usb is_update = (in_update_mode_report usb, Inl (SystemExit 1)))"
    by (auto simp: usb_mode_check_def error_check_def)
  have c2: "(\<not> update_mode usb \<and> is_update \<and> \<not> can_mode_switch usb \<longrightarrow>
      usb_mode_check env usb is_update =
        (Print ''ERROR: Greaseweazle is not in Firmware Update Mode'' #
         print_update_instructions usb, Inl (SystemExit 1)))"
    by (auto simp: usb_mode_check_def error_check_def)
  have c3: "(update_mode usb \<and> \<not> is_update \<and> can_mode_switch usb
        \<and> usb_reopen env usb is_update = (tr, Inr usb') \<and> update_mode usb' \<longrightarrow>
      usb_mode_check env usb is_update = (tr @ in_update_mode_report usb', Inl (SystemExit 1)))"
    by (auto simp: usb_mode_check_def error_check_def)
  have c4: "(update_mode usb \<and> \<not> is_update \<and> can_mode_switch usb
        \<and> usb_reopen env usb is_update = (tr, Inr usb') \<and> \<not> update_mode usb' \<longrightarrow>
      usb_mode_check env usb is_update = (tr, Inr usb'))"
    by (auto simp: usb_mode_check_def error_check_def)
  have c5: "(\<not> update_mode usb \<and> is_update \<and> can_mode_switch usb
        \<and> usb_reopen env usb is_update = (tr, Inr usb') \<and> \<not> update_mode usb' \<longrightarrow>
      usb_mode_check env usb is_update = (tr, Inl (Fatal not_changed_msg)))"
    by (auto simp: usb_mode_check_def error_check_def)
  have c6: "(\<not> update_mode usb \<and> is_update \<and> can_mode_switch usb
        \<and> usb_reopen env usb is_update = (tr, Inr usb') \<and> update_mode usb' \<longrightarrow>
      usb_mode_check env usb is_update = (tr, Inr usb'))"
    by (auto simp: usb_mode_check_def error_check_def)
  have c7: "(update_mode usb \<noteq> is_update \<and> can_mode_switch usb
        \<and> usb_reopen env usb is_update = (tr, Inl e) \<longrightarrow>
      usb_mode_check env usb is_update = (tr, Inl e))"
    by (auto simp: usb_mode_check_def error_check_def)
  have c8: "(\<not> update_mode usb \<and> \<not> is_update \<and> update_needed usb \<longrightarrow>
      usb_mode_check env usb is_update =
        (Print (''ERROR: Greaseweazle firmware v'' @ show_nat (major usb) @ ''.'' @
                show_nat (minor usb) @ '' is unsupported'') #
         print_update_instructions usb, Inl (SystemExit 1)))"
    by (auto simp: usb_mode_check_def error_check_def)
  have c9: "(update_mode usb = is_update \<and> \<not> (\<not> update_mode usb \<and> update_needed usb) \<longrightarrow>
      usb_mode_check env usb is_update = ([], Inr usb))"
    by (auto simp: usb_mode_check_def error_check_def)
  have c10: "(\<forall>u. snd (usb_mode_check env usb is_update) = Inr u \<longrightarrow> update_mode u = is_update)"
    by (auto simp: usb_mode_check_def error_check_def split: prod.splits sum.splits if_splits)
  have c11: "(\<exists>rest. in_update_mode_report u =
                Print ''ERROR: Greaseweazle is in Firmware Update Mode'' # rest)"
    by (simp add: in_update_mode_report_def)
  show ?thesis
    by (intro conjI) (fact c1, fact c2, fact c3, fact c4, fact c5, fact c6, fact c7, fact c8, fact c9, fact c10, fact c11)
qed

text \<open>Attributes of the example sessions.\<close>

lemma session_facts:
  "\<not> update_mode session_a \<and> can_mode_switch session_a \<and> \<not> update_needed session_a
   \<and> update_mode session_boot \<and> can_mode_switch session_boot
   \<and> \<not> update_mode session_back
   \<and> update_mode session_jumpered \<and> \<not> can_mode_switch session_jumpered
   \<and> \<not> update_mode session_f1 \<and> \<not> can_mode_switch session_f1
   \<and> \<not> update_mode session_old \<and> update_needed session_old
   \<and> major session_old = 0 \<and> minor session_old = 24"
  by (simp add: session_a_def session_boot_def session_back_def session_jumpered_def
        session_f1_def session_old_def)

theorem usb_mode_check_table_witness:
  "usb_mode_check env_gone session_jumpered False =
     (in_update_mode_report session_jumpered, Inl (SystemExit 1))
   \<and> usb_mode_check env_gone session_f1 True =
     (Print ''ERROR: Greaseweazle is not in Firmware Update Mode'' #
      print_update_instructions session_f1, Inl (SystemExit 1))
   \<and> usb_mode_check env_stays_boot session_boot False =
     ([SwitchFwMode 1, SerClose ''/dev/ttyACM1'', Sleep] @ in_update_mode_report session_boot,
      Inl (SystemExit 1))
   \<and> usb_mode_check env_to_main session_boot False =
     ([SwitchFwMode 1, SerClose ''/dev/ttyACM1'', Sleep, Sleep], Inr session_back)
   \<and> usb_mode_check env_stays_main session_a True =
     ([SwitchFwMode 0, SerClose ''/dev/ttyACM0'', Sleep], Inl (Fatal not_changed_msg))
   \<and> usb_mode_check env_to_update session_a True =
     ([SwitchFwMode 0, SerClose ''/dev/ttyACM0'', Sleep, Sleep, Sleep], Inr session_boot)
   \<and> usb_mode_check env_gone session_a True =
     (SwitchFwMode 0 # SerClose ''/dev/ttyACM0'' # replicate 10 Sleep,
      Inl (SerialException ''Could not reopen port after mode switch''))
   \<and> usb_mode_check env_gone session_old False =
     (Print ''ERROR: Greaseweazle firmware v0.24 is unsupported'' #
      print_update_instructions session_old, Inl (SystemExit 1))
   \<and> usb_mode_check env_gone session_a False = ([], Inr session_a)"
proof -
  have w1: "usb_mode_check env_gone session_jumpered False =
     (in_update_mode_report session_jumpered, Inl (SystemExit 1))"
    using usb_mode_check_table [where env = env_gone and usb = session_jumpered
        and is_update = False] session_facts
    by simp
  have w2: "usb_mode_check env_gone session_f1 True =
     (Print ''ERROR: Greaseweazle is not in Firmware Update Mode'' #
      print_update_instructions session_f1, Inl (SystemExit 1))"
    using usb_mode_check_table [where env = env_gone and usb = session_f1
        and is_update = True] session_facts
    by simp
  have w3: "usb_mode_check env_stays_boot session_boot False =
     ([SwitchFwMode 1, SerClose ''/dev/ttyACM1'', Sleep] @ in_update_mode_report session_boot,
      Inl (SystemExit 1))"
    using usb_mode_check_table [where env = env_stays_boot and usb = session_boot
        and is_update = False and usb' = session_boot
        and tr = "[SwitchFwMode 1, SerClose ''/dev/ttyACM1'', Sleep]"]
      session_facts reopen_stays_boot
    by simp
  have w4: "usb_mode_check env_to_main session_boot False =
     ([SwitchFwMode 1, SerClose ''/dev/ttyACM1'', Sleep, Sleep], Inr session_back)"
    using usb_mode_check_table [where env = env_to_main and usb = session_boot
        and is_update = False and usb' = session_back
        and tr = "[SwitchFwMode 1, SerClose ''/dev/ttyACM1'', Sleep, Sleep]"]
      session_facts reopen_to_main
    by simp
  have w5: "usb_mode_check env_stays_main session_a True =
     ([SwitchFwMode 0, SerClose ''/dev/ttyACM0'', Sleep], Inl (Fatal not_changed_msg))"
    using usb_mode_check_table [where env = env_stays_main and usb = session_a
        and is_update = True and usb' = session_back
        and tr = "[SwitchFwMode 0, SerClose ''/dev/ttyACM0'', Sleep]"]
      session_facts reopen_stays_main
    by simp
  have w6: "usb_mode_check env_to_update session_a True =
     ([SwitchFwMode 0, SerClose ''/dev/ttyACM0'', Sleep, Sleep, Sleep], Inr session_boot)"
    using usb_mode_check_table [where env = env_to_update and usb = session_a
        and is_update = True and usb' = session_boot
        and tr = "[SwitchFwMode 0, SerClose ''/dev/ttyACM0'', Sleep, Sleep, Sleep]"]
      session_facts reopen_to_update
    by simp
  have w7: "usb_mode_check env_gone session_a True =
     (SwitchFwMode 0 # SerClose ''/dev/ttyACM0'' # replicate 10 Sleep,
      Inl (SerialException ''Could not reopen port after mode switch''))"
    using usb_mode_check_table [where env = env_gone and usb = session_a
        and is_update = True
        and e = "SerialException ''Could not reopen port after mode switch''"
        and tr = "SwitchFwMode 0 # SerClose ''/dev/ttyACM0'' # replicate 10 Sleep"]
      session_facts reopen_gone
    by simp
  have w8: "usb_mode_check env_gone session_old False =
     (Print ''ERROR: Greaseweazle firmware v0.24 is unsupported'' #
      print_update_instructions session_old, Inl (SystemExit 1))"
    using usb_mode_check_table [where env = env_gone and usb = session_old
        and is_update = False] session_facts show_nat_examples
    by simp
  have w9: "usb_mode_check env_gone session_a False = ([], Inr session_a)"
    using usb_mode_check_table [where env = env_gone and usb = session_a
        and is_update = False] session_facts
    by simp
  show ?thesis
    by (intro conjI) (fact w1, fact w2, fact w3, fact w4, fact w5, fact w6, fact w7, fact w8, fact w9)
qed

subsection \<open>usb_open\<close>

text \<open>
  C9. The session that usb_open builds, seen when it is called without the mode check,
  has jumperless_update exactly when its hardware model and submodel are not (1, 0) and
  the host is not Windows with release 7, and can_mode_switch exactly when it has
  jumperless_update and is not both in update mode and jumpered. With the mode check,
  usb_open passes that same session to usb_mode_check. When the device path is given and
  its port opens, usb_open without the mode check returns such a session, with the
  attributes that the device answers.
\<close>

theorem usb_open_capability_flags:
  "(usb_open h devicename is_update False = (tr, Inr usb) \<longrightarrow>
      tr = []
      \<and> jumperless_update usb =
          ((hw_model usb, hw_submodel usb) \<noteq> (1, 0)
           \<and> \<not> (platform_system h = ''Windows'' \<and> platform_release h = ''7''))
      \<and> can_mode_switch usb =
          (jumperless_update usb \<and> \<not> (update_mode usb \<and> update_jumpered usb)))
   \<and> usb_open h devicename is_update True =
       (case usb_open h devicename is_update False of
          (tr0, Inl e) \<Rightarrow> (tr0, Inl e)
        | (tr0, Inr usb0) \<Rightarrow> usb_mode_check (reopen h) usb0 is_update)
   \<and> (serial_open (initial h) d = None \<longrightarrow>
        (\<exists>usb1. usb_open h (Some d) is_update False = ([], Inr usb1)
           \<and> ser usb1 = d
           \<and> update_mode usb1 = update_mode (unit_query (initial h) d)
           \<and> hw_model usb1 = hw_model (unit_query (initial h) d)
           \<and> hw_submodel usb1 = hw_submodel (unit_query (initial h) d)
           \<and> update_jumpered usb1 = update_jumpered (unit_query (initial h) d)))"
proof -
  have a: "usb_open h devicename is_update False = (tr, Inr usb) \<longrightarrow>
      tr = []
      \<and> jumperless_update usb =
          ((hw_model usb, hw_submodel usb) \<noteq> (1, 0)
           \<and> \<not> (platform_system h = ''Windows'' \<and> platform_release h = ''7''))
      \<and> can_mode_switch usb =
          (jumperless_update usb \<and> \<not> (update_mode usb \<and> update_jumpered usb))"
    by (auto simp: usb_open_def is_win7_def Let_def split: sum.splits option.splits)
  have b: "usb_open h devicename is_update True =
       (case usb_open h devicename is_update False of
          (tr0, Inl e) \<Rightarrow> (tr0, Inl e)
        | (tr0, Inr usb0) \<Rightarrow> usb_mode_check (reopen h) usb0 is_update)"
    by (simp add: usb_open_def Let_def split: sum.splits option.splits)
  have c: "serial_open (initial h) d = None \<longrightarrow>
        (\<exists>usb1. usb_open h (Some d) is_update False = ([], Inr usb1)
           \<and> ser usb1 = d
           \<and> update_mode usb1 = update_mode (unit_query (initial h) d)
           \<and> hw_model usb1 = hw_model (unit_query (initial h) d)
           \<and> hw_submodel usb1 = hw_submodel (unit_query (initial h) d)
           \<and> update_jumpered usb1 = update_jumpered (unit_query (initial h) d))"
    by (simp add: usb_open_def Let_def)
  show ?thesis by (intro conjI) (fact a, fact b, fact c)
qed

text \<open>The example hosts of a first open, evaluated.\<close>

lemma find_first:
  "find_port [ftdi, gw_a] None = Inr ''/dev/ttyACM0''"
  by (simp add: find_port_def Let_def ftdi_def gw_a_def score_port_def location_rule_def
        serial_rule_def base_score_def valid_gw_a invalid_ftdi)

lemma info_first: "port_info [ftdi, gw_a] ''/dev/ttyACM0'' = Some gw_a"
  by (simp add: ftdi_def gw_a_def)

lemma open_linux: "usb_open linux_host None False False = ([], Inr session_a)"
  by (simp add: usb_open_def linux_host_def host_first_def find_first info_first Let_def
        is_win7_def info_main_def session_a_def
        del: port_info.simps)

lemma open_win7: "usb_open win7_host None False False = ([], Inr session_win7)"
  by (simp add: usb_open_def win7_host_def linux_host_def host_first_def find_first info_first
        Let_def is_win7_def info_main_def session_a_def session_win7_def
        del: port_info.simps)

lemma open_f1:
  "usb_open f1_host (Some ''/dev/ttyACM0'') False False = ([], Inr session_f1)"
  by (simp add: usb_open_def f1_host_def linux_host_def host_first_def info_first
        Let_def is_win7_def info_main_def session_a_def session_f1_def
        del: port_info.simps)

lemma open_jumpered:
  "usb_open jumpered_host (Some ''/dev/ttyACM0'') False False = ([], Inr session_jumper_open)"
  by (simp add: usb_open_def jumpered_host_def linux_host_def host_first_def info_first
        Let_def is_win7_def info_main_def info_boot_def session_a_def session_jumper_open_def
        del: port_info.simps)

theorem usb_open_capability_flags_witness:
  "usb_open linux_host None False False = ([], Inr session_a)
   \<and> jumperless_update session_a \<and> can_mode_switch session_a
   \<and> usb_open win7_host None False False = ([], Inr session_win7)
   \<and> \<not> jumperless_update session_win7 \<and> \<not> can_mode_switch session_win7
   \<and> usb_open f1_host (Some ''/dev/ttyACM0'') False False = ([], Inr session_f1)
   \<and> \<not> jumperless_update session_f1 \<and> \<not> can_mode_switch session_f1
   \<and> usb_open jumpered_host (Some ''/dev/ttyACM0'') False False = ([], Inr session_jumper_open)
   \<and> jumperless_update session_jumper_open \<and> \<not> can_mode_switch session_jumper_open
   \<and> usb_open linux_host None True True =
       ([SwitchFwMode 0, SerClose ''/dev/ttyACM0'', Sleep, Sleep, Sleep], Inr session_boot)
   \<and> serial_open (initial linux_host) ''/dev/ttyACM0'' = None"
proof -
  have hosts: "platform_system linux_host = ''Linux'' \<and> platform_system f1_host = ''Linux''
      \<and> platform_system jumpered_host = ''Linux''
      \<and> platform_system win7_host = ''Windows'' \<and> platform_release win7_host = ''7''
      \<and> reopen linux_host = env_to_update
      \<and> serial_open (initial linux_host) ''/dev/ttyACM0'' = None"
    by (simp add: linux_host_def win7_host_def f1_host_def jumpered_host_def host_first_def)
  have attrs: "hw_model session_a = 7 \<and> hw_model session_win7 = 7 \<and> hw_model session_f1 = 1
      \<and> hw_submodel session_f1 = 0 \<and> hw_model session_jumper_open = 7
      \<and> \<not> update_mode session_a \<and> \<not> update_mode session_f1
      \<and> update_mode session_jumper_open \<and> update_jumpered session_jumper_open"
    by (simp add: session_a_def session_win7_def session_f1_def session_jumper_open_def)
  have w1: "jumperless_update session_a \<and> can_mode_switch session_a"
    using usb_open_capability_flags [where h = linux_host and devicename = None
        and is_update = False and tr = "[]" and usb = session_a] open_linux hosts attrs
    by simp
  have w2: "\<not> jumperless_update session_win7 \<and> \<not> can_mode_switch session_win7"
    using usb_open_capability_flags [where h = win7_host and devicename = None
        and is_update = False and tr = "[]" and usb = session_win7] open_win7 hosts attrs
    by simp
  have w3: "\<not> jumperless_update session_f1 \<and> \<not> can_mode_switch session_f1"
    using usb_open_capability_flags [where h = f1_host and devicename = "Some ''/dev/ttyACM0''"
        and is_update = False and tr = "[]" and usb = session_f1] open_f1 hosts attrs
    by simp
  have w4: "jumperless_update session_jumper_open \<and> \<not> can_mode_switch session_jumper_open"
    using usb_open_capability_flags [where h = jumpered_host
        and devicename = "Some ''/dev/ttyACM0''"
        and is_update = False and tr = "[]" and usb = session_jumper_open]
      open_jumpered hosts attrs
    by simp
  have w5: "usb_open linux_host None True True =
       ([SwitchFwMode 0, SerClose ''/dev/ttyACM0'', Sleep, Sleep, Sleep], Inr session_boot)"
    using usb_open_capability_flags [where h = linux_host and devicename = None
        and is_update = True] open_linux hosts
    by (simp add: usb_open_def linux_host_def host_first_def find_first info_first Let_def
          is_win7_def info_main_def)
       (simp add: usb_mode_check_def reopen_to_update [unfolded session_a_def] session_boot_def
          session_a_def error_check_def)
  show ?thesis using w1 w2 w3 w4 w5 open_linux open_win7 open_f1 open_jumpered hosts by blast
qed

end
